theory Spec2Isabelle
  imports Main "HOL-Library.Multiset" "HOL-Library.Sublist"
begin

section \<open>JavaScript values of the product records\<close>

text \<open>
  The component \<^verbatim>\<open>ProductAnalytics\<close> (src/components/DataAnalytics.js) reads the array
  \<^verbatim>\<open>performanceData.performance\<close> out of a JSON response and classifies its elements.
  A property of a parsed JSON object is absent (reads as \<^verbatim>\<open>undefined\<close>), \<^verbatim>\<open>null\<close>, a
  boolean, a number or a string. Numbers are the integers: the unit counts of the data
  model are integers, on which the double arithmetic of the comparisons and of the
  subtraction used below is exact.
\<close>

datatype jsval = JUndefined | JNull | JBool bool | JNum int | JStr string

text \<open>The result of the coercion \<^verbatim>\<open>ToNumber\<close>: not-a-number or a number.\<close>

datatype jsnum = NaN | Num int

text \<open>
  Two conversions from strings belong to the JavaScript engine and not to the
  component: the numeric value of a string (\<^verbatim>\<open>StringToNumber\<close>, here with integer or
  NaN results) and \<^verbatim>\<open>Date.parse\<close>, whose result is a time value in milliseconds since
  the epoch, or NaN (\<open>None\<close>) for a string it does not recognise. Both are taken as
  given; every statement below holds for any choice of them.
\<close>

record host =
  stringToNumber :: "string \<Rightarrow> jsnum"
  dateParse :: "string \<Rightarrow> int option"

text \<open>
  A product performance record, with the fields of the data model. \<^verbatim>\<open>id\<close> and \<^verbatim>\<open>name\<close>
  are \<open>product_id\<close> and \<open>product_name\<close> here. The classification reads
  \<^verbatim>\<open>total_units_sold\<close> and \<^verbatim>\<open>latest_rating_date\<close> only.
\<close>

record product =
  product_id :: jsval
  product_name :: jsval
  price :: jsval
  total_units_sold :: jsval
  current_stock :: jsval
  average_rating :: jsval
  latest_rating_date :: jsval

fun ToBoolean :: "jsval \<Rightarrow> bool" where
  "ToBoolean JUndefined = False"
| "ToBoolean JNull = False"
| "ToBoolean (JBool b) = b"
| "ToBoolean (JNum n) = (n \<noteq> 0)"
| "ToBoolean (JStr s) = (s \<noteq> [])"

fun ToNumber :: "host \<Rightarrow> jsval \<Rightarrow> jsnum" where
  "ToNumber h JUndefined = NaN"
| "ToNumber h JNull = Num 0"
| "ToNumber h (JBool b) = Num (if b then 1 else 0)"
| "ToNumber h (JNum n) = Num n"
| "ToNumber h (JStr s) = stringToNumber h s"

text \<open>\<^verbatim>\<open>x > y\<close>, \<^verbatim>\<open>x < y\<close> and \<^verbatim>\<open>x - y\<close> on numbers; a comparison with NaN is false.\<close>

fun js_gt :: "jsnum \<Rightarrow> jsnum \<Rightarrow> bool" where
  "js_gt (Num a) (Num b) = (a > b)"
| "js_gt _ _ = False"

fun js_lt :: "jsnum \<Rightarrow> jsnum \<Rightarrow> bool" where
  "js_lt (Num a) (Num b) = (a < b)"
| "js_lt _ _ = False"

fun js_sub :: "jsnum \<Rightarrow> jsnum \<Rightarrow> jsnum" where
  "js_sub (Num a) (Num b) = Num (a - b)"
| "js_sub _ _ = NaN"

datatype js_error = Error string | RangeError


section \<open>Array.prototype.filter, sort and slice\<close>

text \<open>
  \<^verbatim>\<open>filter\<close> with a callback that may throw: the callback runs on the elements in
  order, and the first exception ends the call.
\<close>

fun filter_throwing :: "('a \<Rightarrow> js_error + bool) \<Rightarrow> 'a list \<Rightarrow> js_error + 'a list" where
  "filter_throwing f [] = Inr []"
| "filter_throwing f (x # xs) =
     (case f x of
        Inl e \<Rightarrow> Inl e
      | Inr b \<Rightarrow>
          (case filter_throwing f xs of
             Inl e \<Rightarrow> Inl e
           | Inr ys \<Rightarrow> Inr (if b then x # ys else ys)))"

text \<open>
  \<^verbatim>\<open>sort(comparefn)\<close>. The value of the comparator is coerced to a number and NaN
  counts as 0 (\<^verbatim>\<open>SortCompare\<close>). The sort is stable (ECMAScript 2019): an element
  is placed before the elements that follow it in the array unless the comparator
  puts it strictly after them, which is insertion from the right.
\<close>

definition SortCompare :: "('a \<Rightarrow> 'a \<Rightarrow> jsnum) \<Rightarrow> 'a \<Rightarrow> 'a \<Rightarrow> int" where
  "SortCompare comparefn x y = (case comparefn x y of NaN \<Rightarrow> 0 | Num v \<Rightarrow> v)"

fun sort_insert :: "('a \<Rightarrow> 'a \<Rightarrow> jsnum) \<Rightarrow> 'a \<Rightarrow> 'a list \<Rightarrow> 'a list" where
  "sort_insert comparefn x [] = [x]"
| "sort_insert comparefn x (y # ys) =
     (if SortCompare comparefn x y \<le> 0 then x # y # ys
      else y # sort_insert comparefn x ys)"

fun array_sort :: "('a \<Rightarrow> 'a \<Rightarrow> jsnum) \<Rightarrow> 'a list \<Rightarrow> 'a list" where
  "array_sort comparefn [] = []"
| "array_sort comparefn (x # xs) = sort_insert comparefn x (array_sort comparefn xs)"

text \<open>\<^verbatim>\<open>slice(0, n)\<close> keeps the first \<open>n\<close> elements, or all of a shorter array.\<close>

definition slice0 :: "nat \<Rightarrow> 'a list \<Rightarrow> 'a list" where
  "slice0 n xs = take n xs"


section \<open>Date: time values and the ISO date string\<close>

text \<open>
  A \<^verbatim>\<open>Date\<close> holds a time value: NaN (\<open>None\<close>, an invalid date) or an integer number of
  milliseconds since 1970-01-01T00:00:00Z of magnitude at most 8.64e15.
\<close>

definition TimeClip :: "int \<Rightarrow> int option" where
  "TimeClip t = (if \<bar>t\<bar> \<le> 8640000000000000 then Some t else None)"

text \<open>\<^verbatim>\<open>new Date(value)\<close>: a string is parsed, any other value is coerced to a number.\<close>

fun newDate :: "host \<Rightarrow> jsval \<Rightarrow> int option" where
  "newDate h (JStr s) = (case dateParse h s of None \<Rightarrow> None | Some t \<Rightarrow> TimeClip t)"
| "newDate h v = (case ToNumber h v of NaN \<Rightarrow> None | Num n \<Rightarrow> TimeClip n)"

definition msPerDay :: int where
  "msPerDay = 86400000"

definition Day :: "int \<Rightarrow> int" where
  "Day t = t div msPerDay"

definition DaysInYear :: "int \<Rightarrow> int" where
  "DaysInYear y =
     (if y mod 4 \<noteq> 0 then 365
      else if y mod 100 \<noteq> 0 then 366
      else if y mod 400 \<noteq> 0 then 365
      else 366)"

definition DayFromYear :: "int \<Rightarrow> int" where
  "DayFromYear y =
     365 * (y - 1970) + (y - 1969) div 4 - (y - 1901) div 100 + (y - 1601) div 400"

text \<open>
  The year of a day number is the largest \<open>y\<close> with \<open>DayFromYear y \<le> d\<close>. It is computed
  from the mean length of a year (146097 days in 400 years) and corrected by one year
  where the estimate is off; \<open>YearFromDay_largest\<close> below shows that this is that year.
\<close>

definition YearFromDay :: "int \<Rightarrow> int" where
  "YearFromDay d =
     (let y = 1970 + (400 * d) div 146097
      in if d < DayFromYear y then y - 1
         else if DayFromYear (y + 1) \<le> d then y + 1
         else y)"

definition YearFromTime :: "int \<Rightarrow> int" where
  "YearFromTime t = YearFromDay (Day t)"

definition InLeapYear :: "int \<Rightarrow> int" where
  "InLeapYear t = (if DaysInYear (YearFromTime t) = 366 then 1 else 0)"

definition DayWithinYear :: "int \<Rightarrow> int" where
  "DayWithinYear t = Day t - DayFromYear (YearFromTime t)"

text \<open>Month numbers run from 0 (January) to 11 (December).\<close>

definition MonthFromTime :: "int \<Rightarrow> int" where
  "MonthFromTime t =
     (let d = DayWithinYear t; l = InLeapYear t
      in if d < 31 then 0
         else if d < 59 + l then 1
         else if d < 90 + l then 2
         else if d < 120 + l then 3
         else if d < 151 + l then 4
         else if d < 181 + l then 5
         else if d < 212 + l then 6
         else if d < 243 + l then 7
         else if d < 273 + l then 8
         else if d < 304 + l then 9
         else if d < 334 + l then 10
         else 11)"

definition DateFromTime :: "int \<Rightarrow> int" where
  "DateFromTime t =
     (let d = DayWithinYear t; l = InLeapYear t; m = MonthFromTime t
      in if m = 0 then d + 1
         else if m = 1 then d - 30
         else if m = 2 then d - 58 - l
         else if m = 3 then d - 89 - l
         else if m = 4 then d - 119 - l
         else if m = 5 then d - 150 - l
         else if m = 6 then d - 180 - l
         else if m = 7 then d - 211 - l
         else if m = 8 then d - 242 - l
         else if m = 9 then d - 272 - l
         else if m = 10 then d - 303 - l
         else d - 333 - l)"

definition HourFromTime :: "int \<Rightarrow> int" where
  "HourFromTime t = (t div 3600000) mod 24"

definition MinFromTime :: "int \<Rightarrow> int" where
  "MinFromTime t = (t div 60000) mod 60"

definition SecFromTime :: "int \<Rightarrow> int" where
  "SecFromTime t = (t div 1000) mod 60"

definition msFromTime :: "int \<Rightarrow> int" where
  "msFromTime t = t mod 1000"

text \<open>Decimal digits of a natural number, padded on the left with zeros.\<close>

definition digit_char :: "nat \<Rightarrow> char" where
  "digit_char n = ''0123456789'' ! n"

fun decimal :: "nat \<Rightarrow> string" where
  "decimal n =
     (if n < 10 then [digit_char n]
      else decimal (n div 10) @ [digit_char (n mod 10)])"

declare decimal.simps [simp del]

definition padStart :: "nat \<Rightarrow> string \<Rightarrow> string" where
  "padStart w s = replicate (w - length s) (CHR ''0'') @ s"

definition pad :: "nat \<Rightarrow> int \<Rightarrow> string" where
  "pad w n = padStart w (decimal (nat n))"

text \<open>
  The year of an ISO string has four digits from 0 to 9999, and a sign and six digits
  otherwise.
\<close>

definition year_string :: "int \<Rightarrow> string" where
  "year_string y =
     (if 0 \<le> y \<and> y \<le> 9999 then pad 4 y
      else if 0 \<le> y then CHR ''+'' # pad 6 y
      else CHR ''-'' # pad 6 (- y))"

definition date_string :: "int \<Rightarrow> string" where
  "date_string t =
     year_string (YearFromTime t) @ ''-'' @ pad 2 (MonthFromTime t + 1) @ ''-'' @
     pad 2 (DateFromTime t)"

definition time_string :: "int \<Rightarrow> string" where
  "time_string t =
     pad 2 (HourFromTime t) @ '':'' @ pad 2 (MinFromTime t) @ '':'' @
     pad 2 (SecFromTime t) @ ''.'' @ pad 3 (msFromTime t)"

text \<open>
  \<^verbatim>\<open>toISOString()\<close> throws a RangeError on an invalid date and gives
  \<^verbatim>\<open>YYYY-MM-DDTHH:mm:ss.sssZ\<close> (in UTC) otherwise.
\<close>

definition iso_string :: "int \<Rightarrow> string" where
  "iso_string t = date_string t @ ''T'' @ time_string t @ ''Z''"

definition toISOString :: "int option \<Rightarrow> js_error + string" where
  "toISOString d = (case d of None \<Rightarrow> Inl RangeError | Some t \<Rightarrow> Inr (iso_string t))"

text \<open>\<^verbatim>\<open>s.split('T')[0]\<close>: the part of \<open>s\<close> before its first \<^verbatim>\<open>T\<close>, all of \<open>s\<close> if it has none.\<close>

definition split_T_0 :: "string \<Rightarrow> string" where
  "split_T_0 s = takeWhile (\<lambda>c. c \<noteq> CHR ''T'') s"


section \<open>The component\<close>

text \<open>The state \<^verbatim>\<open>analyticsData\<close> of the component.\<close>

record analytics =
  topSaleableProducts :: "product list"
  nonSaleableProducts :: "product list"
  currentRatedProducts :: "product list"
  loading :: bool
  error :: "string option"
  saleableCount :: nat
  nonSaleableCount :: nat

text \<open>The initial state given to \<^verbatim>\<open>useState\<close>.\<close>

definition initialAnalytics :: analytics where
  "initialAnalytics =
     \<lparr>topSaleableProducts = [], nonSaleableProducts = [], currentRatedProducts = [],
      loading = True, error = None, saleableCount = 0, nonSaleableCount = 0\<rparr>"

text \<open>The comparator \<^verbatim>\<open>(a, b) => b.total_units_sold - a.total_units_sold\<close>.\<close>

definition byUnitsDesc :: "host \<Rightarrow> product \<Rightarrow> product \<Rightarrow> jsnum" where
  "byUnitsDesc h a b =
     js_sub (ToNumber h (total_units_sold b)) (ToNumber h (total_units_sold a))"

text \<open>Lines 45 to 47: the constant \<^verbatim>\<open>saleableProducts\<close>.\<close>

definition saleableProducts :: "host \<Rightarrow> product list \<Rightarrow> product list" where
  "saleableProducts h performance =
     filter (\<lambda>product. js_gt (ToNumber h (total_units_sold product)) (Num 20)) performance"

text \<open>
  Lines 49 to 52: the constant \<^verbatim>\<open>nonSaleableProducts\<close> (the state has a field of the
  same name, which holds its first ten elements).
\<close>

definition nonSaleableProducts_const :: "host \<Rightarrow> product list \<Rightarrow> product list" where
  "nonSaleableProducts_const h performance =
     array_sort (byUnitsDesc h)
       (filter (\<lambda>product.
          js_lt (ToNumber h (total_units_sold product)) (Num 3) \<and>
          js_gt (ToNumber h (total_units_sold product)) (Num 0)) performance)"

text \<open>
  Line 54: \<^verbatim>\<open>today\<close>. \<^verbatim>\<open>new Date()\<close> is the current time \<open>now\<close>, which is never an
  invalid date.
\<close>

definition today :: "int \<Rightarrow> string" where
  "today now = split_T_0 (iso_string now)"

text \<open>
  Lines 56 and 57: \<^verbatim>\<open>ratingDate\<close> is \<^verbatim>\<open>null\<close> (\<open>None\<close>) for a falsy field, and the date
  part of the ISO string otherwise; \<^verbatim>\<open>toISOString\<close> may throw.
\<close>

definition ratingDate :: "host \<Rightarrow> product \<Rightarrow> js_error + string option" where
  "ratingDate h product =
     (if ToBoolean (latest_rating_date product)
      then (case toISOString (newDate h (latest_rating_date product)) of
              Inl e \<Rightarrow> Inl e
            | Inr s \<Rightarrow> Inr (Some (split_T_0 s)))
      else Inr None)"

text \<open>Lines 55 to 59: the constant \<^verbatim>\<open>currentRatedProducts\<close>.\<close>

definition currentRatedProducts_const ::
  "host \<Rightarrow> product list \<Rightarrow> int \<Rightarrow> js_error + product list" where
  "currentRatedProducts_const h performance now =
     filter_throwing (\<lambda>product.
        case ratingDate h product of
          Inl e \<Rightarrow> Inl e
        | Inr r \<Rightarrow> Inr (r = Some (today now))) performance"

text \<open>
  Lines 45 to 71, the classification (\<^verbatim>\<open>classify\<close> in the specification): what the
  \<^verbatim>\<open>try\<close> block does with the parsed response, up to the argument of
  \<^verbatim>\<open>setAnalyticsData\<close>. \<^verbatim>\<open>sort\<close> sorts
  \<^verbatim>\<open>saleableProducts\<close> in place, so \<^verbatim>\<open>saleableProducts.length\<close>, read after it, is the
  length of the sorted array.
\<close>

definition classify :: "host \<Rightarrow> product list \<Rightarrow> int \<Rightarrow> js_error + analytics" where
  "classify h performance now =
     (let saleable = saleableProducts h performance;
          nonSaleable = nonSaleableProducts_const h performance
      in case currentRatedProducts_const h performance now of
           Inl e \<Rightarrow> Inl e
         | Inr currentRated \<Rightarrow>
             (let sorted = array_sort (byUnitsDesc h) saleable
              in Inr \<lparr>topSaleableProducts = slice0 10 sorted,
                      nonSaleableProducts = slice0 10 nonSaleable,
                      currentRatedProducts = currentRated,
                      loading = False,
                      error = None,
                      saleableCount = length sorted,
                      nonSaleableCount = length nonSaleable\<rparr>))"

text \<open>
  \<^verbatim>\<open>fetchAnalytics\<close>, lines 31 to 80, from the two responses on: \<open>analyticsOk\<close> and
  \<open>performanceOk\<close> are their \<^verbatim>\<open>ok\<close> flags, \<open>performance\<close> is the array of the second
  one. Any exception of the \<^verbatim>\<open>try\<close> block is caught; the handler keeps the previous
  lists and counts and sets the error message.
\<close>

definition fetchAnalytics_try ::
  "host \<Rightarrow> bool \<Rightarrow> bool \<Rightarrow> product list \<Rightarrow> int \<Rightarrow> js_error + analytics" where
  "fetchAnalytics_try h analyticsOk performanceOk performance now =
     (if \<not> analyticsOk \<or> \<not> performanceOk then Inl (Error ''Failed to fetch analytics data'')
      else classify h performance now)"

definition fetchAnalytics ::
  "analytics \<Rightarrow> host \<Rightarrow> bool \<Rightarrow> bool \<Rightarrow> product list \<Rightarrow> int \<Rightarrow> analytics" where
  "fetchAnalytics prev h analyticsOk performanceOk performance now =
     (case fetchAnalytics_try h analyticsOk performanceOk performance now of
        Inr s \<Rightarrow> s
      | Inl e \<Rightarrow> prev\<lparr>loading := False, error := Some ''Failed to fetch analytics data''\<rparr>)"


section \<open>Notions of the specification\<close>

text \<open>
  The number of units sold that the specification speaks of: the numeric value of
  \<^verbatim>\<open>total_units_sold\<close>, and zero where the field is absent or is not a number.
\<close>

definition units_sold :: "host \<Rightarrow> product \<Rightarrow> int" where
  "units_sold h p = (case ToNumber h (total_units_sold p) of NaN \<Rightarrow> 0 | Num n \<Rightarrow> n)"

text \<open>
  A record is rated today when it has a rating date (a truthy \<^verbatim>\<open>latest_rating_date\<close>:
  not absent, not \<^verbatim>\<open>null\<close>, not empty, not 0 or \<^verbatim>\<open>false\<close>) that is a valid date on the
  UTC day of \<open>now\<close>. \<open>Day\<close> is the number of the UTC day, so the time of day is ignored.
\<close>

definition rated_today :: "host \<Rightarrow> int \<Rightarrow> product \<Rightarrow> bool" where
  "rated_today h now p =
     (ToBoolean (latest_rating_date p) \<and>
      (case newDate h (latest_rating_date p) of None \<Rightarrow> False | Some t \<Rightarrow> Day t = Day now))"

text \<open>
  A record with the absent unit counts replaced by zero, and a result with a function
  applied to every record of its three lists. They state what "filtered as if the value
  were zero" means.
\<close>

definition zero_defaulted :: "product \<Rightarrow> product" where
  "zero_defaulted p =
     p\<lparr>total_units_sold :=
         (if total_units_sold p = JUndefined then JNum 0 else total_units_sold p),
       current_stock :=
         (if current_stock p = JUndefined then JNum 0 else current_stock p)\<rparr>"

definition map_products :: "(product \<Rightarrow> product) \<Rightarrow> analytics \<Rightarrow> analytics" where
  "map_products f r =
     r\<lparr>topSaleableProducts := map f (topSaleableProducts r),
       nonSaleableProducts := map f (nonSaleableProducts r),
       currentRatedProducts := map f (currentRatedProducts r)\<rparr>"

text \<open>Reading a padded decimal number back, used to show that the date strings are injective.\<close>

definition digit_val :: "char \<Rightarrow> nat" where
  "digit_val c = of_char c - 48"

definition undecimal :: "string \<Rightarrow> nat" where
  "undecimal s = foldl (\<lambda>a c. 10 * a + digit_val c) 0 s"


section \<open>An example response\<close>

text \<open>
  The example of the specification, with a unit count that arrives as a string, a sixth
  record that has no unit count at all, and two records rated on the day of
  \<open>example_now\<close> (2024-05-01T22:00:00Z). The engine of the example parses the two
  strings that occur.
\<close>

definition example_host :: host where
  "example_host =
     \<lparr>stringToNumber = (\<lambda>s. if s = ''21'' then Num 21 else NaN),
      dateParse = (\<lambda>s. if s = ''2024-05-01T10:00:00.000Z'' then Some 1714557600000 else None)\<rparr>"

definition example_now :: int where
  "example_now = 1714600800000"

definition example_product :: "int \<Rightarrow> jsval \<Rightarrow> jsval \<Rightarrow> product" where
  "example_product i sold rated =
     \<lparr>product_id = JNum i, product_name = JUndefined, price = JUndefined,
      total_units_sold = sold, current_stock = JUndefined, average_rating = JUndefined,
      latest_rating_date = rated\<rparr>"

definition example_performance :: "product list" where
  "example_performance =
     [example_product 1 (JNum 25) JUndefined,
      example_product 2 (JStr ''21'') JNull,
      example_product 3 (JNum 2) JUndefined,
      example_product 4 (JNum 0) JUndefined,
      example_product 5 (JNum 2) (JStr ''2024-05-01T10:00:00.000Z''),
      example_product 6 JUndefined (JStr ''2024-05-01T10:00:00.000Z'')]"

definition example_result :: analytics where
  "example_result =
     \<lparr>topSaleableProducts =
        [example_product 1 (JNum 25) JUndefined, example_product 2 (JStr ''21'') JNull],
      nonSaleableProducts =
        [example_product 3 (JNum 2) JUndefined,
         example_product 5 (JNum 2) (JStr ''2024-05-01T10:00:00.000Z'')],
      currentRatedProducts =
        [example_product 5 (JNum 2) (JStr ''2024-05-01T10:00:00.000Z''),
         example_product 6 JUndefined (JStr ''2024-05-01T10:00:00.000Z'')],
      loading = False, error = None, saleableCount = 2, nonSaleableCount = 2\<rparr>"


section \<open>The filters and the sort in terms of the units sold\<close>

lemma js_gt_units:
  "js_gt (ToNumber h (total_units_sold p)) (Num 20) \<longleftrightarrow> 20 < units_sold h p"
  by (cases "ToNumber h (total_units_sold p)") (simp_all add: units_sold_def)

lemma js_low_units:
  "js_lt (ToNumber h (total_units_sold p)) (Num 3) \<and>
   js_gt (ToNumber h (total_units_sold p)) (Num 0) \<longleftrightarrow>
   0 < units_sold h p \<and> units_sold h p < 3"
  by (cases "ToNumber h (total_units_sold p)") (auto simp add: units_sold_def)

lemma saleableProducts_filter:
  "saleableProducts h performance = filter (\<lambda>p. 20 < units_sold h p) performance"
  by (simp add: saleableProducts_def js_gt_units)

lemma units_nonzero_Num:
  "units_sold h p \<noteq> 0 \<Longrightarrow> ToNumber h (total_units_sold p) = Num (units_sold h p)"
  by (cases "ToNumber h (total_units_sold p)") (simp_all add: units_sold_def)

lemma SortCompare_byUnitsDesc:
  "units_sold h a \<noteq> 0 \<Longrightarrow> units_sold h b \<noteq> 0 \<Longrightarrow>
   SortCompare (byUnitsDesc h) a b = units_sold h b - units_sold h a"
  by (simp add: SortCompare_def byUnitsDesc_def units_nonzero_Num)

text \<open>
  On records that all have a unit count other than zero, the comparator is a consistent
  order and the sort is the stable insertion sort by decreasing units sold.
\<close>

lemma sort_insert_insort_key:
  "units_sold h x \<noteq> 0 \<Longrightarrow> \<forall>y\<in>set ys. units_sold h y \<noteq> 0 \<Longrightarrow>
   sort_insert (byUnitsDesc h) x ys = insort_key (\<lambda>p. - units_sold h p) x ys"
  by (induction ys) (simp_all add: SortCompare_byUnitsDesc)

lemma array_sort_sort_key:
  "\<forall>y\<in>set xs. units_sold h y \<noteq> 0 \<Longrightarrow>
   array_sort (byUnitsDesc h) xs = sort_key (\<lambda>p. - units_sold h p) xs"
  by (induction xs) (simp_all add: sort_insert_insort_key)

text \<open>
  A stable sort has one result, so any sort that meets the requirements of ECMAScript 2019
  returns what \<open>array_sort\<close> returns on these records.
\<close>

lemma array_sort_unique:
  assumes "\<forall>y\<in>set xs. units_sold h y \<noteq> 0"
    and "mset ys = mset xs"
    and "\<And>k. filter (\<lambda>p. units_sold h p = k) ys = filter (\<lambda>p. units_sold h p = k) xs"
    and "sorted_wrt (\<lambda>a b. units_sold h b \<le> units_sold h a) ys"
  shows "array_sort (byUnitsDesc h) xs = ys"
proof -
  have "sort_key (\<lambda>p. - units_sold h p) xs = ys"
  proof (rule properties_for_sort_key)
    show "mset ys = mset xs" by fact
    show "sorted (map (\<lambda>p. - units_sold h p) ys)"
      using assms(4) by (simp add: sorted_map)
    show "filter (\<lambda>x. - units_sold h k = - units_sold h x) ys =
          filter (\<lambda>x. - units_sold h k = - units_sold h x) xs" for k
      using assms(3) [of "units_sold h k"] by (simp add: eq_commute)
  qed
  then show ?thesis
    using assms(1) by (simp add: array_sort_sort_key)
qed

text \<open>Whatever the comparator, the sort permutes the array.\<close>

lemma length_sort_insert: "length (sort_insert c x ys) = Suc (length ys)"
  by (induction ys) auto

lemma length_array_sort: "length (array_sort c xs) = length xs"
  by (induction xs) (auto simp: length_sort_insert)

lemma mset_sort_insert: "mset (sort_insert c x ys) = add_mset x (mset ys)"
  by (induction ys) auto

lemma mset_array_sort: "mset (array_sort c xs) = mset xs"
  by (induction xs) (auto simp: mset_sort_insert)

lemma nonSaleableProducts_const_filter:
  "nonSaleableProducts_const h performance =
   sort_key (\<lambda>p. - units_sold h p)
     (filter (\<lambda>p. 0 < units_sold h p \<and> units_sold h p < 3) performance)"
  unfolding nonSaleableProducts_const_def js_low_units
  by (rule array_sort_sort_key) auto

lemma sorted_saleableProducts:
  "array_sort (byUnitsDesc h) (saleableProducts h performance) =
   sort_key (\<lambda>p. - units_sold h p) (filter (\<lambda>p. 20 < units_sold h p) performance)"
  unfolding saleableProducts_filter
  by (rule array_sort_sort_key) auto


section \<open>The fields of a result\<close>

lemma classify_Inr:
  "classify h performance now = Inr r \<Longrightarrow>
   \<exists>cur. currentRatedProducts_const h performance now = Inr cur \<and>
     r = \<lparr>topSaleableProducts =
            take 10 (array_sort (byUnitsDesc h) (saleableProducts h performance)),
          nonSaleableProducts = take 10 (nonSaleableProducts_const h performance),
          currentRatedProducts = cur, loading = False, error = None,
          saleableCount = length (array_sort (byUnitsDesc h) (saleableProducts h performance)),
          nonSaleableCount = length (nonSaleableProducts_const h performance)\<rparr>"
  by (auto simp: classify_def Let_def slice0_def split: sum.splits)

lemma classify_top:
  "classify h performance now = Inr r \<Longrightarrow>
   topSaleableProducts r =
   take 10 (sort_key (\<lambda>p. - units_sold h p) (filter (\<lambda>p. 20 < units_sold h p) performance))"
  by (auto dest!: classify_Inr simp: sorted_saleableProducts)

lemma classify_non:
  "classify h performance now = Inr r \<Longrightarrow>
   nonSaleableProducts r =
   take 10 (sort_key (\<lambda>p. - units_sold h p)
     (filter (\<lambda>p. 0 < units_sold h p \<and> units_sold h p < 3) performance))"
  by (auto dest!: classify_Inr simp: nonSaleableProducts_const_filter)

lemma classify_counts:
  "classify h performance now = Inr r \<Longrightarrow>
   saleableCount r = length (filter (\<lambda>p. 20 < units_sold h p) performance) \<and>
   nonSaleableCount r =
     length (filter (\<lambda>p. 0 < units_sold h p \<and> units_sold h p < 3) performance)"
  by (auto dest!: classify_Inr simp: nonSaleableProducts_const_filter sorted_saleableProducts)

lemma take_sort_filter_holds:
  "p \<in> set (take n (sort_key f (filter P xs))) \<Longrightarrow> P p"
  by (auto dest: in_set_takeD)

lemma sorted_desc_take_sort:
  "sorted_wrt (\<lambda>a b. (u b :: int) \<le> u a) (take n (sort_key (\<lambda>p. - u p) xs))"
proof -
  have "sorted (map (\<lambda>p. - u p) (sort_key (\<lambda>p. - u p) xs))"
    by (rule sorted_sort_key)
  then have "sorted_wrt (\<lambda>a b. u b \<le> u a) (sort_key (\<lambda>p. - u p) xs)"
    by (simp add: sorted_map)
  then show ?thesis
    by (rule sorted_wrt_take)
qed

text \<open>
  Stability after truncation: the records of one unit count that are kept are the first
  records of that count of the input, in the order of the input.
\<close>

lemma stable_take_sort_filter:
  fixes u :: "'a \<Rightarrow> int"
  assumes "\<And>p. P p \<longleftrightarrow> Q (u p)"
  shows "prefix (filter (\<lambda>p. u p = k) (take n (sort_key (\<lambda>p. - u p) (filter P xs))))
           (filter (\<lambda>p. u p = k) xs)"
    (is "prefix ?l ?r")
proof -
  have "prefix ?l (filter (\<lambda>p. u p = k) (sort_key (\<lambda>p. - u p) (filter P xs)))"
    by (rule filter_mono_prefix) (rule take_is_prefix)
  also have "filter (\<lambda>p. u p = k) (sort_key (\<lambda>p. - u p) (filter P xs)) =
             filter (\<lambda>p. u p = k) (filter P xs)"
    using sort_key_stable [of "\<lambda>p. - u p" "- k" "filter P xs"] by simp
  also have "\<dots> = (if Q k then ?r else [])"
    using assms by (induction xs) auto
  finally show ?thesis
    by (simp split: if_splits)
qed

section \<open>The calendar\<close>

text \<open>
  \<open>YearFromDay\<close> computes the year that ECMAScript defines: the year \<open>y\<close> with
  \<open>DayFromYear y \<le> d < DayFromYear (y + 1)\<close>.
\<close>

lemma div_bounds:
  fixes a k :: int
  assumes "0 < k"
  shows "k * (a div k) \<le> a" and "a < k * (a div k) + k"
proof -
  have "a = k * (a div k) + a mod k" by simp
  moreover have "0 \<le> a mod k" "a mod k < k" using assms by simp_all
  ultimately show "k * (a div k) \<le> a" and "a < k * (a div k) + k" by linarith+
qed

lemma DayFromYear_upper: "400 * DayFromYear y \<le> 146097 * y - 287810501"
  unfolding DayFromYear_def
  using div_bounds [of 4 "y - 1969"] div_bounds [of 100 "y - 1901"] div_bounds [of 400 "y - 1601"]
  by simp

lemma DayFromYear_lower: "146097 * y - 287811596 \<le> 400 * DayFromYear y"
  unfolding DayFromYear_def
  using div_bounds [of 4 "y - 1969"] div_bounds [of 100 "y - 1901"] div_bounds [of 400 "y - 1601"]
  by simp

lemma YearFromDay_bounds:
  "DayFromYear (YearFromDay d) \<le> d \<and> d < DayFromYear (YearFromDay d + 1)"
proof -
  define x where "x = (400 * d) div 146097"
  have x: "146097 * x \<le> 400 * d" "400 * d < 146097 * x + 146097"
    unfolding x_def using div_bounds [of 146097 "400 * d"] by simp_all
  have a: "DayFromYear (1969 + x) \<le> d"
    using DayFromYear_upper [of "1969 + x"] x by simp
  have b: "d < DayFromYear (1972 + x)"
    using DayFromYear_lower [of "1972 + x"] x by simp
  have "DayFromYear (1970 + x - 1) \<le> d" "d < DayFromYear (1970 + x + 1 + 1)"
    using a b by (simp_all add: algebra_simps)
  then show ?thesis
    unfolding YearFromDay_def Let_def x_def [symmetric]
    by auto
qed

lemma div_succ:
  fixes a k :: int
  assumes "0 < k"
  shows "(a + 1) div k = a div k + (if k dvd (a + 1) then 1 else 0)"
proof (cases "a mod k + 1 = k")
  case True
  have e: "a = k * (a div k) + a mod k" by simp
  have "a + 1 = k * (a div k) + k" using e True by linarith
  then have "a + 1 = k * (a div k + 1) + 0" by (simp add: algebra_simps)
  then have "(a + 1) div k = a div k + 1" "(a + 1) mod k = 0"
    using assms by (metis int_div_pos_eq order_refl, metis int_mod_pos_eq order_refl)
  then show ?thesis by (simp add: dvd_eq_mod_eq_0)
next
  case False
  have r: "0 \<le> a mod k + 1" "a mod k + 1 < k"
    using assms False pos_mod_sign [of k a] pos_mod_bound [of k a] by linarith+
  have "a + 1 = k * (a div k) + (a mod k + 1)"
    by simp
  then have "(a + 1) div k = a div k" "(a + 1) mod k = a mod k + 1"
    using r by (metis int_div_pos_eq, metis int_mod_pos_eq)
  moreover have "0 \<le> a mod k" using assms by simp
  then have "a mod k + 1 \<noteq> 0" by linarith
  ultimately show ?thesis by (simp add: dvd_eq_mod_eq_0)
qed

lemma DaysInYear_diff: "DayFromYear (y + 1) - DayFromYear y = DaysInYear y"
proof -
  have a: "(y + 1 - 1969) div 4 = (y - 1969) div 4 + (if 4 dvd y then 1 else 0)"
    using div_succ [of 4 "y - 1969"] dvd_diff_left_iff [of 4 1968 y] by (simp add: algebra_simps)
  have b: "(y + 1 - 1901) div 100 = (y - 1901) div 100 + (if 100 dvd y then 1 else 0)"
    using div_succ [of 100 "y - 1901"] dvd_diff_left_iff [of 100 1900 y] by (simp add: algebra_simps)
  have c: "(y + 1 - 1601) div 400 = (y - 1601) div 400 + (if 400 dvd y then 1 else 0)"
    using div_succ [of 400 "y - 1601"] dvd_diff_left_iff [of 400 1600 y] by (simp add: algebra_simps)
  have d: "400 dvd y \<Longrightarrow> 100 dvd y" "100 dvd y \<Longrightarrow> 4 dvd y"
    by (rule dvd_trans [of 100 400 y], simp_all) (rule dvd_trans [of 4 100 y], simp_all)
  show ?thesis
    unfolding DayFromYear_def DaysInYear_def a b c
    using d by (auto simp: mod_eq_0_iff_dvd)
qed

lemma DayFromYear_mono: "x \<le> y \<Longrightarrow> DayFromYear x \<le> DayFromYear y"
proof (induction y rule: int_ge_induct)
  case base
  show ?case by simp
next
  case (step i)
  have "365 \<le> DaysInYear i" by (simp add: DaysInYear_def)
  then show ?case
    using step.IH DaysInYear_diff [of i] by linarith
qed

text \<open>The year of a day is the largest year that starts on or before that day.\<close>

lemma YearFromDay_largest: "DayFromYear y \<le> d \<longleftrightarrow> y \<le> YearFromDay d"
proof
  assume "DayFromYear y \<le> d"
  show "y \<le> YearFromDay d"
  proof (rule ccontr)
    assume "\<not> y \<le> YearFromDay d"
    then have "DayFromYear (YearFromDay d + 1) \<le> DayFromYear y"
      by (intro DayFromYear_mono) simp
    then show False
      using YearFromDay_bounds [of d] \<open>DayFromYear y \<le> d\<close> by linarith
  qed
next
  assume "y \<le> YearFromDay d"
  then have "DayFromYear y \<le> DayFromYear (YearFromDay d)"
    by (rule DayFromYear_mono)
  then show "DayFromYear y \<le> d"
    using YearFromDay_bounds [of d] by linarith
qed

lemma DayWithinYear_bounds:
  "0 \<le> DayWithinYear t \<and> DayWithinYear t < DaysInYear (YearFromTime t)"
  using YearFromDay_bounds [of "Day t"] DaysInYear_diff [of "YearFromTime t"]
  unfolding DayWithinYear_def YearFromTime_def by linarith

lemma DayWithinYear_less: "DayWithinYear t < 365 + InLeapYear t"
  using DayWithinYear_bounds [of t] unfolding InLeapYear_def DaysInYear_def
  by (simp split: if_splits)

lemma InLeapYear_cases: "InLeapYear t = 0 \<or> InLeapYear t = 1"
  by (simp add: InLeapYear_def)

lemma DateFromTime_range: "1 \<le> DateFromTime t \<and> DateFromTime t \<le> 31"
proof -
  define d l where "d = DayWithinYear t" and "l = InLeapYear t"
  have "0 \<le> d" "d < 365 + l" "l = 0 \<or> l = 1"
    using DayWithinYear_bounds [of t] DayWithinYear_less [of t] InLeapYear_cases [of t]
    by (simp_all add: d_def l_def)
  then show ?thesis
    unfolding DateFromTime_def MonthFromTime_def Let_def d_def [symmetric] l_def [symmetric]
    by auto
qed

lemma Day_from_fields:
  "Day t = DayFromYear (YearFromTime t) + DayWithinYear t"
  by (simp add: DayWithinYear_def)

lemma DayWithinYear_from_fields:
  "DayWithinYear t =
     DateFromTime t - 1 +
     (let l = InLeapYear t; m = MonthFromTime t
      in if m = 0 then 0 else if m = 1 then 31 else if m = 2 then 59 + l
         else if m = 3 then 90 + l else if m = 4 then 120 + l else if m = 5 then 151 + l
         else if m = 6 then 181 + l else if m = 7 then 212 + l else if m = 8 then 243 + l
         else if m = 9 then 273 + l else if m = 10 then 304 + l else 334 + l)"
  unfolding DateFromTime_def Let_def by simp

lemma Day_eq_of_fields:
  assumes "YearFromTime s = YearFromTime t" "MonthFromTime s = MonthFromTime t"
    "DateFromTime s = DateFromTime t"
  shows "Day s = Day t"
proof -
  have "InLeapYear s = InLeapYear t"
    using assms(1) by (simp add: InLeapYear_def)
  then have "DayWithinYear s = DayWithinYear t"
    using assms DayWithinYear_from_fields [of s] DayWithinYear_from_fields [of t] by simp
  then show ?thesis
    using assms(1) Day_from_fields [of s] Day_from_fields [of t] by simp
qed

lemma fields_of_Day:
  assumes "Day s = Day t"
  shows "YearFromTime s = YearFromTime t \<and> MonthFromTime s = MonthFromTime t \<and>
    DateFromTime s = DateFromTime t"
proof -
  have y: "YearFromTime s = YearFromTime t" using assms by (simp add: YearFromTime_def)
  then have l: "InLeapYear s = InLeapYear t" by (simp add: InLeapYear_def)
  have d: "DayWithinYear s = DayWithinYear t" using assms y by (simp add: DayWithinYear_def)
  have m: "MonthFromTime s = MonthFromTime t" using l d by (simp add: MonthFromTime_def)
  have "DateFromTime s = DateFromTime t" using l d m by (simp add: DateFromTime_def)
  with y m show ?thesis by simp
qed


section \<open>The date string determines the day\<close>

lemma MonthFromTime_range: "0 \<le> MonthFromTime t \<and> MonthFromTime t \<le> 11"
  unfolding MonthFromTime_def Let_def by simp

lemma digit_char_table:
  "\<forall>n\<in>set [0..<10]. digit_char n \<in> set ''0123456789'' \<and> digit_val (digit_char n) = n"
  by (simp add: upt_rec digit_char_def digit_val_def)

lemma digit_char_cases:
  assumes "n < 10"
  shows "digit_char n \<in> set ''0123456789'' \<and> digit_val (digit_char n) = n"
proof -
  have "n \<in> set [0..<10]" using assms by simp
  then show ?thesis using digit_char_table by blast
qed

lemma undecimal_snoc: "undecimal (s @ [c]) = 10 * undecimal s + digit_val c"
  by (simp add: undecimal_def)

lemma undecimal_decimal: "undecimal (decimal n) = n"
proof (induction n rule: decimal.induct)
  case (1 n)
  show ?case
  proof (cases "n < 10")
    case True
    then show ?thesis
      using digit_char_cases [of n] by (simp add: decimal.simps [of n] undecimal_def)
  next
    case False
    then have "undecimal (decimal (n div 10)) = n div 10" using 1 by simp
    moreover have "digit_val (digit_char (n mod 10)) = n mod 10"
      using digit_char_cases [of "n mod 10"] by simp
    ultimately show ?thesis
      using False by (simp add: decimal.simps [of n] undecimal_snoc)
  qed
qed

lemma undecimal_zeros: "undecimal (replicate k (CHR ''0'') @ s) = undecimal s"
proof -
  have "foldl (\<lambda>a c. 10 * a + digit_val c) 0 (replicate k (CHR ''0'')) = 0"
    by (induction k) (simp_all add: digit_val_def)
  then show ?thesis by (simp add: undecimal_def)
qed

lemma undecimal_pad: "0 \<le> n \<Longrightarrow> int (undecimal (pad w n)) = n"
  by (simp add: pad_def padStart_def undecimal_zeros undecimal_decimal)

lemma set_decimal: "set (decimal n) \<subseteq> set ''0123456789''"
proof (induction n rule: decimal.induct)
  case (1 n)
  show ?case
  proof (cases "n < 10")
    case True
    then show ?thesis
      using digit_char_cases [of n] by (simp add: decimal.simps [of n])
  next
    case False
    then have "set (decimal (n div 10)) \<subseteq> set ''0123456789''" using 1 by simp
    moreover have "digit_char (n mod 10) \<in> set ''0123456789''"
      using digit_char_cases [of "n mod 10"] by simp
    ultimately show ?thesis
      using False by (simp add: decimal.simps [of n])
  qed
qed

lemma set_pad: "set (pad w n) \<subseteq> set ''0123456789''"
  using set_decimal [of "nat n"] by (auto simp: pad_def padStart_def)

lemma pad_no_sign: "pad w n \<noteq> CHR ''+'' # s" "pad w n \<noteq> CHR ''-'' # s"
  using set_pad [of w n] by auto

lemma pad_no_dash: "CHR ''-'' \<notin> set (pad w n)"
  using set_pad [of w n] by auto

lemma pad_no_T: "CHR ''T'' \<notin> set (pad w n)"
  using set_pad [of w n] by auto

lemma pad_inj: "0 \<le> m \<Longrightarrow> 0 \<le> n \<Longrightarrow> pad w m = pad v n \<Longrightarrow> m = n"
  using undecimal_pad [of m w] undecimal_pad [of n v] by simp

lemma year_string_inj: "year_string x = year_string y \<Longrightarrow> x = y"
  unfolding year_string_def
  using pad_inj [of x y 4 4] pad_inj [of x y 6 6] pad_inj [of "- x" "- y" 6 6]
  by (auto simp: pad_no_sign pad_no_sign [symmetric] split: if_splits)

lemma split_at_first:
  "c \<notin> set u \<Longrightarrow> c \<notin> set u' \<Longrightarrow> u @ c # v = u' @ c # v' \<Longrightarrow> u = u' \<and> v = v'"
proof (induction u arbitrary: u')
  case Nil
  then show ?case by (cases u') auto
next
  case (Cons a u)
  then show ?case by (cases u') auto
qed

lemma split_at_last:
  assumes "c \<notin> set v" "c \<notin> set v'" "u @ c # v = u' @ c # v'"
  shows "u = u' \<and> v = v'"
proof -
  have "rev v @ c # rev u = rev v' @ c # rev u'"
    using arg_cong [OF assms(3), of rev] by simp
  then have "rev v = rev v' \<and> rev u = rev u'"
    using assms(1,2) by (intro split_at_first) simp_all
  then show ?thesis by simp
qed

lemma date_string_fields:
  assumes "date_string s = date_string t"
  shows "YearFromTime s = YearFromTime t \<and> MonthFromTime s = MonthFromTime t \<and>
    DateFromTime s = DateFromTime t"
proof -
  have 1: "(year_string (YearFromTime s) @ CHR ''-'' # pad 2 (MonthFromTime s + 1)) @
             CHR ''-'' # pad 2 (DateFromTime s) =
           (year_string (YearFromTime t) @ CHR ''-'' # pad 2 (MonthFromTime t + 1)) @
             CHR ''-'' # pad 2 (DateFromTime t)"
    using assms by (simp add: date_string_def)
  have 2: "year_string (YearFromTime s) @ CHR ''-'' # pad 2 (MonthFromTime s + 1) =
           year_string (YearFromTime t) @ CHR ''-'' # pad 2 (MonthFromTime t + 1)"
    and d: "pad 2 (DateFromTime s) = pad 2 (DateFromTime t)"
    using split_at_last [OF pad_no_dash pad_no_dash 1] by simp_all
  have y: "year_string (YearFromTime s) = year_string (YearFromTime t)"
    and m: "pad 2 (MonthFromTime s + 1) = pad 2 (MonthFromTime t + 1)"
    using split_at_last [OF pad_no_dash pad_no_dash 2] by simp_all
  have "YearFromTime s = YearFromTime t"
    using y by (rule year_string_inj)
  moreover have "MonthFromTime s + 1 = MonthFromTime t + 1"
    using m MonthFromTime_range [of s] MonthFromTime_range [of t] by (intro pad_inj [of _ _ 2 2]) simp_all
  moreover have "DateFromTime s = DateFromTime t"
    using d DateFromTime_range [of s] DateFromTime_range [of t] by (intro pad_inj [of _ _ 2 2]) simp_all
  ultimately show ?thesis by simp
qed

lemma date_string_eq_iff: "date_string s = date_string t \<longleftrightarrow> Day s = Day t"
proof
  assume "date_string s = date_string t"
  then show "Day s = Day t"
    using date_string_fields [of s t] Day_eq_of_fields [of s t] by simp
next
  assume "Day s = Day t"
  then show "date_string s = date_string t"
    using fields_of_Day [of s t] by (simp add: date_string_def)
qed

lemma year_string_no_T: "CHR ''T'' \<notin> set (year_string y)"
  using pad_no_T by (simp add: year_string_def)

lemma date_string_no_T: "CHR ''T'' \<notin> set (date_string t)"
  using pad_no_T year_string_no_T by (simp add: date_string_def)

lemma takeWhile_until:
  "c \<notin> set xs \<Longrightarrow> takeWhile (\<lambda>x. x \<noteq> c) (xs @ c # ys) = xs"
  by (induction xs) auto

text \<open>The part of an ISO string before its \<^verbatim>\<open>T\<close> is the date.\<close>

lemma split_T_0_iso: "split_T_0 (iso_string t) = date_string t"
  using date_string_no_T [of t] by (simp add: split_T_0_def iso_string_def takeWhile_until)

lemma today_eq: "today now = date_string now"
  by (simp add: today_def split_T_0_iso)


section \<open>The rated-today filter\<close>

lemma filter_throwing_Inr_iff:
  "filter_throwing f xs = Inr ys \<longleftrightarrow>
   (\<forall>x\<in>set xs. \<exists>b. f x = Inr b) \<and> ys = filter (\<lambda>x. f x = Inr True) xs"
proof (induction xs arbitrary: ys)
  case Nil
  then show ?case by auto
next
  case (Cons x xs)
  show ?case
  proof (cases "f x")
    case (Inl e)
    then show ?thesis by auto
  next
    case (Inr b)
    then show ?thesis
      using Cons.IH by (cases "filter_throwing f xs") auto
  qed
qed

lemma ratingDate_cases:
  "ratingDate h p =
     (if ToBoolean (latest_rating_date p)
      then (case newDate h (latest_rating_date p) of
              None \<Rightarrow> Inl RangeError
            | Some t \<Rightarrow> Inr (Some (date_string t)))
      else Inr None)"
  by (simp add: ratingDate_def toISOString_def split_T_0_iso split: option.splits)

lemma callback_True_iff:
  "(case ratingDate h p of Inl e \<Rightarrow> Inl e | Inr r \<Rightarrow> Inr (r = Some (today now))) = Inr True
   \<longleftrightarrow> rated_today h now p"
  by (simp add: ratingDate_cases rated_today_def today_eq date_string_eq_iff split: option.splits)

lemma callback_returns_iff:
  "(\<exists>b. (case ratingDate h p of Inl e \<Rightarrow> Inl e | Inr r \<Rightarrow> Inr (r = Some (today now))) = Inr b)
   \<longleftrightarrow> (ToBoolean (latest_rating_date p) \<longrightarrow> newDate h (latest_rating_date p) \<noteq> None)"
  by (auto simp add: ratingDate_cases split: option.splits)

lemma currentRatedProducts_const_Inr_iff:
  "currentRatedProducts_const h performance now = Inr cur \<longleftrightarrow>
   (\<forall>p\<in>set performance.
      ToBoolean (latest_rating_date p) \<longrightarrow> newDate h (latest_rating_date p) \<noteq> None) \<and>
   cur = filter (rated_today h now) performance"
  unfolding currentRatedProducts_const_def filter_throwing_Inr_iff callback_True_iff
    callback_returns_iff ..

text \<open>
  The classification yields a result exactly when every record with a truthy
  \<^verbatim>\<open>latest_rating_date\<close> has a valid date there; otherwise \<^verbatim>\<open>toISOString\<close> throws.
\<close>

lemma classify_returns_iff:
  "(\<exists>r. classify h performance now = Inr r) \<longleftrightarrow>
   (\<forall>p\<in>set performance.
      ToBoolean (latest_rating_date p) \<longrightarrow> newDate h (latest_rating_date p) \<noteq> None)"
proof
  assume "\<exists>r. classify h performance now = Inr r"
  then obtain cur where "currentRatedProducts_const h performance now = Inr cur"
    by (blast dest: classify_Inr)
  then show "\<forall>p\<in>set performance.
      ToBoolean (latest_rating_date p) \<longrightarrow> newDate h (latest_rating_date p) \<noteq> None"
    by (simp add: currentRatedProducts_const_Inr_iff)
next
  assume "\<forall>p\<in>set performance.
      ToBoolean (latest_rating_date p) \<longrightarrow> newDate h (latest_rating_date p) \<noteq> None"
  then have "currentRatedProducts_const h performance now =
      Inr (filter (rated_today h now) performance)"
    by (simp add: currentRatedProducts_const_Inr_iff)
  then show "\<exists>r. classify h performance now = Inr r"
    by (simp add: classify_def Let_def)
qed

lemma filter_throwing_Inl:
  "filter_throwing f xs = Inl e \<Longrightarrow> \<exists>x\<in>set xs. f x = Inl e"
  by (induction xs) (auto split: sum.splits)

lemma classify_throws:
  "classify h performance now = Inl e \<Longrightarrow> e = RangeError"
  by (auto simp: classify_def Let_def currentRatedProducts_const_def ratingDate_cases
      split: sum.splits option.splits if_splits dest!: filter_throwing_Inl)

lemma classify_raises_iff:
  "classify h performance now = Inl RangeError \<longleftrightarrow>
   (\<exists>p\<in>set performance.
      ToBoolean (latest_rating_date p) \<and> newDate h (latest_rating_date p) = None)"
proof -
  have "classify h performance now = Inl RangeError \<longleftrightarrow>
      \<not> (\<exists>r. classify h performance now = Inr r)"
    using classify_throws [of h performance now]
    by (cases "classify h performance now") auto
  then show ?thesis
    by (auto simp: classify_returns_iff)
qed

lemma classify_cur:
  "classify h performance now = Inr r \<Longrightarrow>
   currentRatedProducts r = filter (rated_today h now) performance"
  by (auto dest!: classify_Inr simp: currentRatedProducts_const_Inr_iff)

lemma classify_explicit:
  assumes "\<forall>p\<in>set performance.
      ToBoolean (latest_rating_date p) \<longrightarrow> newDate h (latest_rating_date p) \<noteq> None"
  shows "classify h performance now =
     Inr \<lparr>topSaleableProducts =
            take 10 (sort_key (\<lambda>p. - units_sold h p)
              (filter (\<lambda>p. 20 < units_sold h p) performance)),
          nonSaleableProducts =
            take 10 (sort_key (\<lambda>p. - units_sold h p)
              (filter (\<lambda>p. 0 < units_sold h p \<and> units_sold h p < 3) performance)),
          currentRatedProducts = filter (rated_today h now) performance,
          loading = False, error = None,
          saleableCount = length (filter (\<lambda>p. 20 < units_sold h p) performance),
          nonSaleableCount =
            length (filter (\<lambda>p. 0 < units_sold h p \<and> units_sold h p < 3) performance)\<rparr>"
proof -
  have "currentRatedProducts_const h performance now =
      Inr (filter (rated_today h now) performance)"
    using assms by (simp add: currentRatedProducts_const_Inr_iff)
  then show ?thesis
    by (simp add: classify_def Let_def slice0_def sorted_saleableProducts
        nonSaleableProducts_const_filter)
qed

lemma units_sold_zero_defaulted: "units_sold h (zero_defaulted p) = units_sold h p"
  by (simp add: units_sold_def zero_defaulted_def)

lemma rated_today_zero_defaulted: "rated_today h now (zero_defaulted p) = rated_today h now p"
  by (simp add: rated_today_def zero_defaulted_def)

lemma latest_rating_date_zero_defaulted:
  "latest_rating_date (zero_defaulted p) = latest_rating_date p"
  by (simp add: zero_defaulted_def)

lemma insort_key_map:
  "insort_key f (g x) (map g ys) = map g (insort_key (\<lambda>p. f (g p)) x ys)"
  by (induction ys) simp_all

lemma sort_key_map: "sort_key f (map g xs) = map g (sort_key (\<lambda>p. f (g p)) xs)"
  by (induction xs) (simp_all add: insort_key_map)

lemma filter_map_pred: "filter P (map g xs) = map g (filter (\<lambda>p. P (g p)) xs)"
  by (induction xs) simp_all


section \<open>The example, evaluated\<close>

lemma example_Day: "Day 1714557600000 = 19844" "Day example_now = 19844"
  by (simp_all add: Day_def msPerDay_def example_now_def)

lemma example_date_string: "date_string 1714557600000 = ''2024-05-01''"
  by (simp add: date_string_def YearFromTime_def MonthFromTime_def DateFromTime_def
      DayWithinYear_def InLeapYear_def DaysInYear_def example_Day YearFromDay_def
      DayFromYear_def year_string_def pad_def padStart_def decimal.simps digit_char_def)

lemma example_today: "today example_now = ''2024-05-01''"
  using date_string_eq_iff [of example_now 1714557600000]
  by (simp add: today_eq example_Day example_date_string)

lemma example_ratingDate:
  "ratingDate example_host (example_product i sold (JStr ''2024-05-01T10:00:00.000Z'')) =
     Inr (Some ''2024-05-01'')"
  "ratingDate example_host (example_product i sold JUndefined) = Inr None"
  "ratingDate example_host (example_product i sold JNull) = Inr None"
  by (simp_all add: ratingDate_def example_product_def example_host_def toISOString_def
      TimeClip_def split_T_0_iso example_date_string)

lemma example_currentRated:
  "currentRatedProducts_const example_host example_performance example_now =
     Inr [example_product 5 (JNum 2) (JStr ''2024-05-01T10:00:00.000Z''),
          example_product 6 JUndefined (JStr ''2024-05-01T10:00:00.000Z'')]"
  by (simp add: currentRatedProducts_const_def example_performance_def example_ratingDate
      example_today)

lemma example_units:
  "ToNumber example_host (total_units_sold (example_product i sold rated)) =
     ToNumber example_host sold"
  "stringToNumber example_host ''21'' = Num 21"
  by (simp_all add: example_product_def example_host_def)

lemma example_classify:
  "classify example_host example_performance example_now = Inr example_result"
  unfolding classify_def example_currentRated
  by (simp add: saleableProducts_def nonSaleableProducts_const_def slice0_def
      example_result_def example_performance_def example_units SortCompare_def
      byUnitsDesc_def)


section \<open>The saleable and non-saleable lists and the counts\<close>

text \<open>
  C1. Whenever the classification yields a result, \<^verbatim>\<open>topSaleableProducts\<close> is the first ten
  elements (all of them if there are fewer) of the stable sort by decreasing units sold
  of the records with more than 20 units sold, in the order of the input; so it has at
  most ten elements and each of them has more than 20 units sold.
\<close>

theorem topSaleable_is_top10_of_descending_sort:
  assumes "classify h performance now = Inr r"
  shows "topSaleableProducts r =
           take 10 (sort_key (\<lambda>p. - units_sold h p)
             (filter (\<lambda>p. 20 < units_sold h p) performance)) \<and>
         length (topSaleableProducts r) \<le> 10 \<and>
         (\<forall>p\<in>set (topSaleableProducts r). 20 < units_sold h p)"
proof -
  note top = classify_top [OF assms]
  have "\<forall>p\<in>set (topSaleableProducts r). 20 < units_sold h p"
    unfolding top by (blast dest: take_sort_filter_holds)
  moreover have "length (topSaleableProducts r) \<le> 10"
    unfolding top by simp
  ultimately show ?thesis
    using top by blast
qed

theorem topSaleable_is_top10_of_descending_sort_witness:
  "classify example_host example_performance example_now = Inr example_result \<and>
   topSaleableProducts example_result =
     take 10 (sort_key (\<lambda>p. - units_sold example_host p)
       (filter (\<lambda>p. 20 < units_sold example_host p) example_performance)) \<and>
   length (topSaleableProducts example_result) \<le> 10 \<and>
   20 < units_sold example_host (example_product 1 (JNum 25) JUndefined) \<and>
   20 < units_sold example_host (example_product 2 (JStr ''21'') JNull)"
  using topSaleable_is_top10_of_descending_sort [OF example_classify] example_classify
  by (simp add: example_result_def)

text \<open>
  C3. \<^verbatim>\<open>saleableCount\<close> is the number of records with more than 20 units sold and
  \<^verbatim>\<open>nonSaleableCount\<close> the number of records with 1 or 2 units sold, both counted before
  the lists are cut to ten elements; so \<^verbatim>\<open>saleableCount\<close> is at least the length of
  \<^verbatim>\<open>topSaleableProducts\<close>, and equal to it exactly when at most ten records have more
  than 20 units sold.
\<close>

theorem counts_are_sizes_before_truncation:
  assumes "classify h performance now = Inr r"
  shows "saleableCount r = length (filter (\<lambda>p. 20 < units_sold h p) performance) \<and>
         nonSaleableCount r =
           length (filter (\<lambda>p. 0 < units_sold h p \<and> units_sold h p < 3) performance) \<and>
         length (topSaleableProducts r) \<le> saleableCount r \<and>
         (saleableCount r = length (topSaleableProducts r) \<longleftrightarrow>
            length (filter (\<lambda>p. 20 < units_sold h p) performance) \<le> 10)"
  unfolding classify_top [OF assms] using classify_counts [OF assms] by auto

theorem counts_are_sizes_before_truncation_witness:
  "classify example_host example_performance example_now = Inr example_result \<and>
   saleableCount example_result =
     length (filter (\<lambda>p. 20 < units_sold example_host p) example_performance) \<and>
   nonSaleableCount example_result =
     length (filter (\<lambda>p. 0 < units_sold example_host p \<and> units_sold example_host p < 3)
       example_performance) \<and>
   length (topSaleableProducts example_result) \<le> saleableCount example_result \<and>
   (saleableCount example_result = length (topSaleableProducts example_result) \<longleftrightarrow>
      length (filter (\<lambda>p. 20 < units_sold example_host p) example_performance) \<le> 10)"
  using counts_are_sizes_before_truncation [OF example_classify] example_classify
  by blast

text \<open>
  C4. \<^verbatim>\<open>nonSaleableProducts\<close> has at most ten elements, each with 1 or 2 units sold. A
  record whose \<^verbatim>\<open>total_units_sold\<close> is 0, or is absent, is never in it.
\<close>

theorem nonSaleable_bounds:
  assumes "classify h performance now = Inr r"
  shows "length (nonSaleableProducts r) \<le> 10 \<and>
         (\<forall>p\<in>set (nonSaleableProducts r). 0 < units_sold h p \<and> units_sold h p < 3) \<and>
         (\<forall>p. ToNumber h (total_units_sold p) = Num 0 \<or> total_units_sold p = JUndefined
              \<longrightarrow> p \<notin> set (nonSaleableProducts r))"
proof -
  note non = classify_non [OF assms]
  have in_range: "\<forall>p\<in>set (nonSaleableProducts r). 0 < units_sold h p \<and> units_sold h p < 3"
    unfolding non by (blast dest: take_sort_filter_holds)
  have "units_sold h p = 0"
    if "ToNumber h (total_units_sold p) = Num 0 \<or> total_units_sold p = JUndefined" for p
    using that by (auto simp: units_sold_def)
  then have "\<forall>p. ToNumber h (total_units_sold p) = Num 0 \<or> total_units_sold p = JUndefined
      \<longrightarrow> p \<notin> set (nonSaleableProducts r)"
    using in_range by fastforce
  moreover have "length (nonSaleableProducts r) \<le> 10"
    unfolding non by simp
  ultimately show ?thesis
    using in_range by blast
qed

theorem nonSaleable_bounds_witness:
  "classify example_host example_performance example_now = Inr example_result \<and>
   length (nonSaleableProducts example_result) \<le> 10 \<and>
   0 < units_sold example_host (example_product 3 (JNum 2) JUndefined) \<and>
   units_sold example_host (example_product 3 (JNum 2) JUndefined) < 3 \<and>
   example_product 4 (JNum 0) JUndefined \<notin> set (nonSaleableProducts example_result) \<and>
   example_product 6 JUndefined (JStr ''2024-05-01T10:00:00.000Z'') \<notin>
     set (nonSaleableProducts example_result)"
proof -
  note b = nonSaleable_bounds [OF example_classify]
  have "example_product 3 (JNum 2) JUndefined \<in> set (nonSaleableProducts example_result)"
    by (simp add: example_result_def)
  then have "0 < units_sold example_host (example_product 3 (JNum 2) JUndefined) \<and>
      units_sold example_host (example_product 3 (JNum 2) JUndefined) < 3"
    using b by blast
  moreover have "ToNumber example_host (total_units_sold (example_product 4 (JNum 0) JUndefined))
      = Num 0"
    by (simp add: example_product_def)
  then have "example_product 4 (JNum 0) JUndefined \<notin> set (nonSaleableProducts example_result)"
    using b by blast
  moreover have "total_units_sold
      (example_product 6 JUndefined (JStr ''2024-05-01T10:00:00.000Z'')) = JUndefined"
    by (simp add: example_product_def)
  then have "example_product 6 JUndefined (JStr ''2024-05-01T10:00:00.000Z'') \<notin>
      set (nonSaleableProducts example_result)"
    using b by blast
  ultimately show ?thesis
    using b example_classify by blast
qed

text \<open>
  C5. Both lists are in decreasing order of units sold, and the sort is stable: for every
  unit count, the records of that count in an output list are the first such records of
  the input, in the order of the input. Two records with the same unit count are
  therefore in the output in the order they have in the input.
\<close>

theorem sorts_descending_and_stable:
  assumes "classify h performance now = Inr r"
  shows "sorted_wrt (\<lambda>a b. units_sold h b \<le> units_sold h a) (topSaleableProducts r) \<and>
         sorted_wrt (\<lambda>a b. units_sold h b \<le> units_sold h a) (nonSaleableProducts r) \<and>
         (\<forall>k. prefix (filter (\<lambda>p. units_sold h p = k) (topSaleableProducts r))
                (filter (\<lambda>p. units_sold h p = k) performance)) \<and>
         (\<forall>k. prefix (filter (\<lambda>p. units_sold h p = k) (nonSaleableProducts r))
                (filter (\<lambda>p. units_sold h p = k) performance))"
  unfolding classify_top [OF assms] classify_non [OF assms]
  using stable_take_sort_filter [where Q = "\<lambda>v. 20 < v" and u = "units_sold h"]
    stable_take_sort_filter [where Q = "\<lambda>v. 0 < v \<and> v < 3" and u = "units_sold h"]
  by (simp add: sorted_desc_take_sort)

theorem sorts_descending_and_stable_witness:
  "classify example_host example_performance example_now = Inr example_result \<and>
   sorted_wrt (\<lambda>a b. units_sold example_host b \<le> units_sold example_host a)
     (topSaleableProducts example_result) \<and>
   sorted_wrt (\<lambda>a b. units_sold example_host b \<le> units_sold example_host a)
     (nonSaleableProducts example_result) \<and>
   (\<forall>k. prefix (filter (\<lambda>p. units_sold example_host p = k) (topSaleableProducts example_result))
          (filter (\<lambda>p. units_sold example_host p = k) example_performance)) \<and>
   (\<forall>k. prefix (filter (\<lambda>p. units_sold example_host p = k) (nonSaleableProducts example_result))
          (filter (\<lambda>p. units_sold example_host p = k) example_performance))"
  using sorts_descending_and_stable [OF example_classify] example_classify
  by blast

text \<open>
  C9. On the empty array the classification raises nothing: all three lists are empty
  and both counts are 0, and this is the state that \<^verbatim>\<open>fetchAnalytics\<close> sets.
\<close>

theorem classify_empty:
  "classify h [] now =
     Inr \<lparr>topSaleableProducts = [], nonSaleableProducts = [], currentRatedProducts = [],
          loading = False, error = None, saleableCount = 0, nonSaleableCount = 0\<rparr> \<and>
   fetchAnalytics prev h True True [] now =
     \<lparr>topSaleableProducts = [], nonSaleableProducts = [], currentRatedProducts = [],
      loading = False, error = None, saleableCount = 0, nonSaleableCount = 0\<rparr>"
  by (simp add: fetchAnalytics_def fetchAnalytics_try_def classify_def saleableProducts_def
      nonSaleableProducts_const_def currentRatedProducts_const_def slice0_def)

theorem classify_empty_witness:
  "classify example_host [] example_now =
     Inr \<lparr>topSaleableProducts = [], nonSaleableProducts = [], currentRatedProducts = [],
          loading = False, error = None, saleableCount = 0, nonSaleableCount = 0\<rparr> \<and>
   fetchAnalytics initialAnalytics example_host True True [] example_now =
     \<lparr>topSaleableProducts = [], nonSaleableProducts = [], currentRatedProducts = [],
      loading = False, error = None, saleableCount = 0, nonSaleableCount = 0\<rparr>"
  using classify_empty [of example_host example_now initialAnalytics]
  by simp


section \<open>The rated-today list\<close>

text \<open>
  C2. Whenever the classification yields a result, \<^verbatim>\<open>currentRatedProducts\<close> holds exactly
  the records that are rated today, each as often as the input has it: the records with
  a rating date whose UTC day is the UTC day of \<open>now\<close>, whatever the time of day. The
  list is not cut to any length, and a record without \<^verbatim>\<open>latest_rating_date\<close> (absent or
  \<^verbatim>\<open>null\<close>) is not in it.
\<close>

theorem currentRated_exactly_rated_today:
  assumes "classify h performance now = Inr r"
  shows "mset (currentRatedProducts r) = filter_mset (rated_today h now) (mset performance) \<and>
         length (currentRatedProducts r) = length (filter (rated_today h now) performance) \<and>
         (\<forall>p. latest_rating_date p = JUndefined \<or> latest_rating_date p = JNull
              \<longrightarrow> p \<notin> set (currentRatedProducts r))"
proof -
  note cur = classify_cur [OF assms]
  have "mset (currentRatedProducts r) = filter_mset (rated_today h now) (mset performance)"
    unfolding cur by simp
  moreover have "\<forall>p. latest_rating_date p = JUndefined \<or> latest_rating_date p = JNull
      \<longrightarrow> p \<notin> set (currentRatedProducts r)"
    unfolding cur by (auto simp: rated_today_def)
  ultimately show ?thesis
    using cur by simp
qed

theorem currentRated_exactly_rated_today_witness:
  "classify example_host example_performance example_now = Inr example_result \<and>
   mset (currentRatedProducts example_result) =
     filter_mset (rated_today example_host example_now) (mset example_performance) \<and>
   length (currentRatedProducts example_result) =
     length (filter (rated_today example_host example_now) example_performance) \<and>
   example_product 1 (JNum 25) JUndefined \<notin> set (currentRatedProducts example_result) \<and>
   example_product 2 (JStr ''21'') JNull \<notin> set (currentRatedProducts example_result)"
proof -
  note c = currentRated_exactly_rated_today [OF example_classify]
  have "latest_rating_date (example_product 1 (JNum 25) JUndefined) = JUndefined"
    "latest_rating_date (example_product 2 (JStr ''21'') JNull) = JNull"
    by (simp_all add: example_product_def)
  then have "example_product 1 (JNum 25) JUndefined \<notin> set (currentRatedProducts example_result)"
    "example_product 2 (JStr ''21'') JNull \<notin> set (currentRatedProducts example_result)"
    using c by blast+
  then show ?thesis
    using c example_classify by blast
qed

text \<open>
  C10. \<^verbatim>\<open>currentRatedProducts\<close> keeps the order of the input: it is the input with the
  records that are not rated today left out.
\<close>

theorem currentRated_keeps_input_order:
  assumes "classify h performance now = Inr r"
  shows "currentRatedProducts r = filter (rated_today h now) performance \<and>
         subseq (currentRatedProducts r) performance"
  unfolding classify_cur [OF assms] by simp

theorem currentRated_keeps_input_order_witness:
  "classify example_host example_performance example_now = Inr example_result \<and>
   currentRatedProducts example_result =
     filter (rated_today example_host example_now) example_performance \<and>
   subseq (currentRatedProducts example_result) example_performance"
  using currentRated_keeps_input_order [OF example_classify] example_classify
  by blast


section \<open>Determinism, the records of the output, and the exception\<close>

text \<open>
  C8. The classification is a function of the records and of the UTC day of \<open>now\<close>: two
  runs on the same records at two times of the same day give the same outcome, be it a
  result (all three lists and both counts) or an exception, and \<^verbatim>\<open>fetchAnalytics\<close> sets
  the same state.
\<close>

theorem classification_depends_on_day_only:
  assumes "Day now1 = Day now2"
  shows "classify h performance now1 = classify h performance now2 \<and>
         fetchAnalytics prev h analyticsOk performanceOk performance now1 =
         fetchAnalytics prev h analyticsOk performanceOk performance now2"
proof -
  have t: "today now1 = today now2"
    using assms by (simp add: today_eq date_string_eq_iff)
  have "classify h performance now1 = classify h performance now2"
    unfolding classify_def currentRatedProducts_const_def t ..
  then show ?thesis
    by (simp add: fetchAnalytics_def fetchAnalytics_try_def)
qed

theorem classification_depends_on_day_only_witness:
  "Day example_now = Day 1714557600000 \<and>
   classify example_host example_performance example_now =
     classify example_host example_performance 1714557600000 \<and>
   fetchAnalytics initialAnalytics example_host True True example_performance example_now =
     fetchAnalytics initialAnalytics example_host True True example_performance 1714557600000 \<and>
   classify example_host example_performance 1714557600000 = Inr example_result"
proof -
  have d: "Day example_now = Day 1714557600000"
    by (simp add: example_Day)
  show ?thesis
    using classification_depends_on_day_only [OF d, of example_host example_performance
      initialAnalytics True True] d example_classify
    by simp
qed

text \<open>
  C7. Every record of an output list is a record of the input, as it is there: the lists
  are selections of the input, so a field that is absent in the input is absent in the
  output. A record whose \<^verbatim>\<open>total_units_sold\<close> or \<^verbatim>\<open>current_stock\<close> is absent is selected
  as if the field were 0: classifying the input with these fields set to 0 selects the
  same records, at the same places, and gives the same counts.
\<close>

theorem records_unchanged_and_filtered_as_zero:
  assumes "classify h performance now = Inr r"
  shows "classify h (map zero_defaulted performance) now = Inr (map_products zero_defaulted r) \<and>
         mset (topSaleableProducts r) \<subseteq># mset performance \<and>
         mset (nonSaleableProducts r) \<subseteq># mset performance \<and>
         mset (currentRatedProducts r) \<subseteq># mset performance"
proof -
  have ok: "\<forall>p\<in>set performance.
      ToBoolean (latest_rating_date p) \<longrightarrow> newDate h (latest_rating_date p) \<noteq> None"
    using assms classify_returns_iff [of h performance now] by blast
  then have ok': "\<forall>p\<in>set (map zero_defaulted performance).
      ToBoolean (latest_rating_date p) \<longrightarrow> newDate h (latest_rating_date p) \<noteq> None"
    by (simp add: latest_rating_date_zero_defaulted)
  have r: "Inr r = classify h performance now"
    using assms by simp
  have 1: "classify h (map zero_defaulted performance) now = Inr (map_products zero_defaulted r)"
    using r unfolding classify_explicit [OF ok] classify_explicit [OF ok']
    by (simp add: map_products_def filter_map_pred sort_key_map units_sold_zero_defaulted
        rated_today_zero_defaulted take_map)
  have sub: "mset (take n (sort_key f (filter P xs))) \<subseteq># mset xs"
    for n P and f :: "product \<Rightarrow> int" and xs :: "product list"
  proof -
    have "mset (take n (sort_key f (filter P xs))) \<subseteq># mset (sort_key f (filter P xs))"
      by (metis append_take_drop_id mset_append mset_subset_eq_add_left)
    also have "\<dots> \<subseteq># mset xs" by simp
    finally show ?thesis .
  qed
  have 2: "mset (topSaleableProducts r) \<subseteq># mset performance"
    unfolding classify_top [OF assms] by (rule sub)
  have 3: "mset (nonSaleableProducts r) \<subseteq># mset performance"
    unfolding classify_non [OF assms] by (rule sub)
  have 4: "mset (currentRatedProducts r) \<subseteq># mset performance"
    unfolding classify_cur [OF assms] by simp
  show ?thesis using 1 2 3 4 by blast
qed

theorem records_unchanged_and_filtered_as_zero_witness:
  "classify example_host example_performance example_now = Inr example_result \<and>
   classify example_host (map zero_defaulted example_performance) example_now =
     Inr (map_products zero_defaulted example_result) \<and>
   mset (topSaleableProducts example_result) \<subseteq># mset example_performance \<and>
   mset (nonSaleableProducts example_result) \<subseteq># mset example_performance \<and>
   mset (currentRatedProducts example_result) \<subseteq># mset example_performance \<and>
   currentRatedProducts example_result ! 1 =
     example_product 6 JUndefined (JStr ''2024-05-01T10:00:00.000Z'') \<and>
   total_units_sold (currentRatedProducts example_result ! 1) = JUndefined \<and>
   current_stock (currentRatedProducts example_result ! 1) = JUndefined"
proof -
  have "currentRatedProducts example_result ! 1 =
      example_product 6 JUndefined (JStr ''2024-05-01T10:00:00.000Z'')"
    by (simp add: example_result_def)
  then show ?thesis
    using records_unchanged_and_filtered_as_zero [OF example_classify] example_classify
    by (simp add: example_product_def)
qed

text \<open>
  C6. A record whose \<^verbatim>\<open>latest_rating_date\<close> is a string that is not a date makes the
  classification throw: \<^verbatim>\<open>new Date('not a date')\<close> is an invalid date, on which
  \<^verbatim>\<open>toISOString\<close> raises a RangeError. The handler of \<^verbatim>\<open>fetchAnalytics\<close> catches it and
  shows the message of a failed fetch, with the lists as they were. By
  \<open>classify_raises_iff\<close> and \<open>classify_throws\<close> this is the only way the classification
  raises: absent or malformed unit counts, and absent dates, never do.
\<close>

theorem malformed_rating_date_raises:
  "classify example_host [example_product 7 (JNum 5) (JStr ''not a date'')] example_now =
     Inl RangeError \<and>
   fetchAnalytics initialAnalytics example_host True True
     [example_product 7 (JNum 5) (JStr ''not a date'')] example_now =
     initialAnalytics\<lparr>loading := False, error := Some ''Failed to fetch analytics data''\<rparr>"
  by (simp add: fetchAnalytics_def fetchAnalytics_try_def classify_def
      currentRatedProducts_const_def ratingDate_def toISOString_def example_product_def
      example_host_def)

end
